theory Spec2Isabelle
  imports Main
begin

section \<open>Strings\<close>

text \<open>
  Python's \<^verbatim>\<open>str.lower()\<close> on the letters A to Z; every other character is
  left as it is. Strings are \<^typ>\<open>string\<close>, so the development speaks about ASCII names,
  families and type tags.
\<close>

definition lower_char :: "char \<Rightarrow> char" where
  "lower_char c =
     (let n = (of_char c :: nat) in if 65 \<le> n \<and> n \<le> 90 then char_of (n + 32) else c)"

definition lower :: "string \<Rightarrow> string" where
  "lower s = map lower_char s"

fun startswith :: "string \<Rightarrow> string \<Rightarrow> bool" where
  "startswith s [] = True"
| "startswith [] (p # ps) = False"
| "startswith (c # cs) (p # ps) = (c = p \<and> startswith cs ps)"

text \<open>\<^verbatim>\<open>sub in s\<close> on strings: \<open>sub\<close> occurs in \<open>s\<close> as a contiguous run.\<close>

fun str_in :: "string \<Rightarrow> string \<Rightarrow> bool" where
  "str_in sub [] = (sub = [])"
| "str_in sub (c # cs) = (startswith (c # cs) sub \<or> str_in sub cs)"

section \<open>Devices\<close>

text \<open>
  A device object as \<^verbatim>\<open>find_intercom\<close> probes it: \<open>dev_type\<close> is
  \<^verbatim>\<open>str(type(device))\<close>; \<open>name\<close> and \<open>family\<close> are \<open>None\<close> when
  \<^verbatim>\<open>hasattr\<close> is false.
\<close>

record device =
  dev_type :: string
  name :: "string option"
  family :: "string option"

text \<open>
  The object returned by \<^verbatim>\<open>ring.devices()\<close>; a grouping is \<open>None\<close> when the object
  has no such attribute.
\<close>

record ring_devices =
  other :: "device list option"
  doorbots :: "device list option"
  stickup_cams :: "device list option"
  chimes :: "device list option"
  video_doorbells :: "device list option"
  devices_combined :: "device list option"

text \<open>\<^verbatim>\<open>if hasattr(devices, g): all_devices.extend(devices.g)\<close>\<close>

definition extend_attr :: "device list \<Rightarrow> device list option \<Rightarrow> device list" where
  "extend_attr acc g = (case g of None \<Rightarrow> acc | Some ds \<Rightarrow> acc @ ds)"

text \<open>The local \<^verbatim>\<open>all_devices\<close> of \<^verbatim>\<open>find_intercom\<close> (lines 129 to 147).\<close>

definition all_devices :: "ring_devices \<Rightarrow> device list" where
  "all_devices devices =
     (let a0 = [];
          a1 = extend_attr a0 (other devices);
          a2 = extend_attr a1 (doorbots devices);
          a3 = extend_attr a2 (stickup_cams devices);
          a4 = extend_attr a3 (chimes devices);
          a5 = extend_attr a4 (video_doorbells devices)
      in case devices_combined devices of None \<Rightarrow> a5 | Some ds \<Rightarrow> ds)"

text \<open>
  \<^verbatim>\<open>hasattr(device, 'name') and device.name.lower() == INTERCOM_NAME.lower()\<close>
\<close>

definition name_matches :: "string \<Rightarrow> device \<Rightarrow> bool" where
  "name_matches intercom_name d =
     (case name d of None \<Rightarrow> False | Some n \<Rightarrow> lower n = lower intercom_name)"

text \<open>The loop of lines 151 to 153; \<open>None\<close> when it ends without returning.\<close>

fun find_by_name :: "string \<Rightarrow> device list \<Rightarrow> device option" where
  "find_by_name intercom_name [] = None"
| "find_by_name intercom_name (d # ds) =
     (if name_matches intercom_name d then Some d else find_by_name intercom_name ds)"

definition device_type :: "device \<Rightarrow> string" where
  "device_type d = lower (dev_type d)"

definition device_family :: "device \<Rightarrow> string" where
  "device_family d = (case family d of None \<Rightarrow> [] | Some f \<Rightarrow> lower f)"

definition device_name :: "device \<Rightarrow> string" where
  "device_name d = (case name d of None \<Rightarrow> [] | Some n \<Rightarrow> lower n)"

definition explicit_intercom :: "device \<Rightarrow> bool" where
  "explicit_intercom d =
     (str_in ''intercom'' (device_type d) \<or> str_in ''intercom'' (device_family d)
      \<or> str_in ''intercom'' (device_name d))"

text \<open>
  The loop of lines 162 to 172, with the two lists \<^verbatim>\<open>intercom_devices\<close> and
  \<^verbatim>\<open>other_devices\<close> as accumulators.
\<close>

fun classify :: "device list \<Rightarrow> device list \<Rightarrow> device list \<Rightarrow> device list \<times> device list" where
  "classify [] intercom_devices other_devices = (intercom_devices, other_devices)"
| "classify (d # ds) intercom_devices other_devices =
     (if explicit_intercom d then classify ds (intercom_devices @ [d]) other_devices
      else if device_family d = ''other'' then classify ds intercom_devices (other_devices @ [d])
      else classify ds intercom_devices other_devices)"

text \<open>
  \<^verbatim>\<open>find_intercom\<close>, with the global \<^verbatim>\<open>INTERCOM_NAME\<close> as its first argument
  and \<^verbatim>\<open>ring.devices()\<close> as its second.
\<close>

definition find_intercom :: "string \<Rightarrow> ring_devices \<Rightarrow> device option" where
  "find_intercom intercom_name devices =
     (let all = all_devices devices;
          by_name = (if intercom_name \<noteq> [] then find_by_name intercom_name all else None)
      in case by_name of
           Some d \<Rightarrow> Some d
         | None \<Rightarrow>
             (case classify all [] [] of
                (d # _, _) \<Rightarrow> Some d
              | ([], d # _) \<Rightarrow> Some d
              | ([], []) \<Rightarrow> None))"


section \<open>Exceptions and library calls\<close>

text \<open>
  The exceptions the code tells apart: \<^verbatim>\<open>AuthenticationError\<close> of the vendor client,
  \<^verbatim>\<open>AttributeError\<close> (with the attribute that is missing) and every other
  \<^verbatim>\<open>Exception\<close>; the string is the exception's text.
\<close>

datatype exn = AuthenticationError string | AttributeError string | OtherError string

text \<open>
  What \<^verbatim>\<open>json\<close> and \<^verbatim>\<open>base64\<close> do is not part of this repository, so the
  calls are parameters. \<open>'tok\<close> is the type of the JSON values other than \<^verbatim>\<open>null\<close>
  (a token is one of them).
  \<^item> \<open>json_dumps\<close>: \<^verbatim>\<open>json.dumps(token)\<close>;
  \<^item> \<open>json_loads\<close>: \<^verbatim>\<open>json.loads(text)\<close>, \<open>Inl\<close> when it raises, \<open>Inr None\<close>
    when the text is \<^verbatim>\<open>null\<close> (Python's \<^verbatim>\<open>None\<close>);
  \<^item> \<open>b64encode\<close>: \<^verbatim>\<open>base64.b64encode(text.encode()).decode()\<close>;
  \<^item> \<open>b64decode\<close>: \<^verbatim>\<open>base64.b64decode(text.encode()).decode()\<close>, \<open>Inl\<close> when
    a step of it raises;
  \<^item> \<open>truthy\<close>: the truth value Python gives a value in \<^verbatim>\<open>if cached_token:\<close>.
\<close>

record 'tok lib =
  json_dumps :: "'tok \<Rightarrow> string"
  json_loads :: "string \<Rightarrow> exn + 'tok option"
  b64encode :: "string \<Rightarrow> string"
  b64decode :: "string \<Rightarrow> exn + string"
  truthy :: "'tok \<Rightarrow> bool"

section \<open>Token store\<close>

text \<open>
  The file at \<^verbatim>\<open>TOKEN_FILE\<close>: \<open>NoFile\<close> when \<^verbatim>\<open>is_file()\<close> is false,
  \<open>Unreadable\<close> when \<^verbatim>\<open>read_text()\<close> raises, \<open>Contents\<close> with the text otherwise.
\<close>

datatype file_state = NoFile | Unreadable | Contents string

text \<open>
  The state the token functions read and write: the global \<^verbatim>\<open>RING_TOKEN\<close>, the file
  and the global \<^verbatim>\<open>_latest_token_b64\<close>. Calls of \<^verbatim>\<open>print\<close> are not modelled.
\<close>

record store =
  ring_token :: string
  token_file :: file_state
  latest_token_b64 :: "string option"

text \<open>
  What the file system does with one \<^verbatim>\<open>TOKEN_FILE.write_text(text)\<close>, which opens
  the file for writing (this empties it) and then writes: the write succeeds; or opening
  raises and the file is as it was; or writing raises after the file was opened, and the
  file holds the first \<open>n\<close> characters of the text (none when \<open>n\<close> is 0).
\<close>

datatype write_outcome = Written | OpenFails exn | WriteFails exn nat

text \<open>
  \<^verbatim>\<open>TOKEN_FILE.write_text(text)\<close>: the exception raised, if any, and the store it
  leaves.
\<close>

definition write_text :: "write_outcome \<Rightarrow> string \<Rightarrow> store \<Rightarrow> exn option \<times> store" where
  "write_text wr text s =
     (case wr of
        Written \<Rightarrow> (None, s\<lparr>token_file := Contents text\<rparr>)
      | OpenFails e \<Rightarrow> (Some e, s)
      | WriteFails e n \<Rightarrow> (Some e, s\<lparr>token_file := Contents (take n text)\<rparr>))"

text \<open>
  \<^verbatim>\<open>token_updated\<close>. The \<^verbatim>\<open>except\<close> clause only prints, so after a write that
  raised the function goes on with the store the write left.
\<close>

definition token_updated :: "'tok lib \<Rightarrow> write_outcome \<Rightarrow> 'tok \<Rightarrow> store \<Rightarrow> store" where
  "token_updated l wr token s =
     (let s1 = (case write_text wr (json_dumps l token) s of
                  (None, s') \<Rightarrow> s'
                | (Some e, s') \<Rightarrow> s');
          token_json = json_dumps l token;
          token_b64 = b64encode l token_json
      in s1\<lparr>latest_token_b64 := Some token_b64\<rparr>)"

text \<open>
  \<^verbatim>\<open>get_cached_token\<close>, in its two parts. The result \<open>None\<close> is Python's
  \<^verbatim>\<open>None\<close>, whether it comes from the last line or from \<^verbatim>\<open>json.loads\<close> of the
  text \<^verbatim>\<open>null\<close>.

  Lines 85 to 90, the environment variable: \<open>Some v\<close> when the function returns \<open>v\<close>
  there, \<open>None\<close> when it goes on to the file.
\<close>

definition from_env :: "'tok lib \<Rightarrow> store \<Rightarrow> 'tok option option" where
  "from_env l s =
     (if ring_token s \<noteq> [] then
        (case b64decode l (ring_token s) of
           Inl e \<Rightarrow> None
         | Inr token_json \<Rightarrow>
             (case json_loads l token_json of
                Inl e \<Rightarrow> None
              | Inr v \<Rightarrow> Some v))
      else None)"

text \<open>Lines 93 to 99, the file.\<close>

definition from_file :: "'tok lib \<Rightarrow> store \<Rightarrow> 'tok option" where
  "from_file l s =
     (case token_file s of
        Contents text \<Rightarrow>
          (case json_loads l text of
             Inr v \<Rightarrow> v
           | Inl e \<Rightarrow> None)
      | Unreadable \<Rightarrow> None
      | NoFile \<Rightarrow> None)"

definition get_cached_token :: "'tok lib \<Rightarrow> store \<Rightarrow> 'tok option" where
  "get_cached_token l s =
     (case from_env l s of
        Some v \<Rightarrow> v
      | None \<Rightarrow> from_file l s)"

section \<open>Sessions\<close>

text \<open>
  What the vendor cloud does in one run: for each call, \<open>None\<close> when it returns and
  \<open>Some e\<close> when it raises \<open>e\<close>; \<open>devices\<close> is what \<^verbatim>\<open>ring.devices()\<close> gives.
  \<open>fetch_token\<close> takes the username, the password and the code.
\<close>

record provider =
  fetch_token :: "string \<Rightarrow> string \<Rightarrow> string \<Rightarrow> exn option"
  create_session :: "exn option"
  update_data :: "exn option"
  devices :: ring_devices
  open_door :: "device \<Rightarrow> exn option"
  close :: "exn option"

text \<open>The calls made to the vendor client, in the order they are made.\<close>

datatype event =
    FetchToken string string string
  | CreateSession
  | UpdateData
  | OpenDoor device
  | Close

text \<open>The pair \<^verbatim>\<open>(ring, auth)\<close> of an open session.\<close>

datatype client = Client

definition is_authentication_error :: "exn \<Rightarrow> bool" where
  "is_authentication_error e = (case e of AuthenticationError _ \<Rightarrow> True | _ \<Rightarrow> False)"

text \<open>
  \<^verbatim>\<open>get_ring_client\<close>: \<open>Inr None\<close> is \<^verbatim>\<open>(None, None)\<close>, \<open>Inl e\<close> an exception
  that leaves the function.
\<close>

definition get_ring_client ::
  "'tok lib \<Rightarrow> provider \<Rightarrow> store \<Rightarrow> (exn + client option) \<times> event list" where
  "get_ring_client l p s =
     (case get_cached_token l s of
        None \<Rightarrow> (Inr None, [])
      | Some cached_token \<Rightarrow>
          if truthy l cached_token then
            (case create_session p of
               Some e \<Rightarrow>
                 (if is_authentication_error e then (Inr None, [CreateSession])
                  else (Inl e, [CreateSession]))
             | None \<Rightarrow>
                 (case update_data p of
                    Some e \<Rightarrow>
                      (if is_authentication_error e then (Inr None, [CreateSession, UpdateData])
                       else (Inl e, [CreateSession, UpdateData]))
                  | None \<Rightarrow> (Inr (Some Client), [CreateSession, UpdateData])))
          else (Inr None, []))"

section \<open>Unlocking\<close>

text \<open>
  The second component of the result of \<^verbatim>\<open>unlock_door_async\<close>:
  \<^item> \<open>NotAuthenticated\<close>: "Not authenticated. Please visit /setup to authenticate.";
  \<^item> \<open>NoIntercomFound device_list\<close>: "No intercom found. Available devices: " and the list;
  \<^item> \<open>DoorUnlocked n\<close>: "Door unlocked via \<open>n\<close>!";
  \<^item> \<open>ErrorUnlockingDoor e\<close>: "Error unlocking door: " and the text of \<open>e\<close>.
\<close>

datatype message =
    NotAuthenticated
  | NoIntercomFound "string list"
  | DoorUnlocked string
  | ErrorUnlockingDoor exn

text \<open>\<^verbatim>\<open>f"{name} ({family})"\<close> with the defaults of the two \<^verbatim>\<open>getattr\<close> calls.\<close>

definition describe :: "device \<Rightarrow> string" where
  "describe d =
     (case name d of None \<Rightarrow> ''Unknown'' | Some n \<Rightarrow> n) @ '' ('' @
     (case family d of None \<Rightarrow> ''Unknown'' | Some f \<Rightarrow> f) @ '')''"

text \<open>The list \<^verbatim>\<open>device_list\<close> of lines 195 to 206.\<close>

definition device_list :: "ring_devices \<Rightarrow> string list" where
  "device_list ds =
     (let all0 = (case devices_combined ds of None \<Rightarrow> [] | Some xs \<Rightarrow> xs);
          all1 = (if all0 = [] then (case other ds of None \<Rightarrow> all0 | Some xs \<Rightarrow> xs) else all0)
      in map describe all1)"

text \<open>
  The body of the \<^verbatim>\<open>try\<close> together with its \<^verbatim>\<open>except Exception\<close>: every path
  gives a result.
\<close>

definition try_unlock :: "string \<Rightarrow> provider \<Rightarrow> (bool \<times> message) \<times> event list" where
  "try_unlock intercom_name p =
     (case find_intercom intercom_name (devices p) of
        None \<Rightarrow> ((False, NoIntercomFound (device_list (devices p))), [])
      | Some intercom \<Rightarrow>
          (case open_door p intercom of
             Some e \<Rightarrow> ((False, ErrorUnlockingDoor e), [OpenDoor intercom])
           | None \<Rightarrow>
               (case name intercom of
                  None \<Rightarrow> ((False, ErrorUnlockingDoor (AttributeError ''name'')), [OpenDoor intercom])
                | Some n \<Rightarrow> ((True, DoorUnlocked n), [OpenDoor intercom]))))"

text \<open>
  \<^verbatim>\<open>unlock_door_async\<close>. The \<^verbatim>\<open>finally\<close> clause closes the session after the
  body; an exception of \<^verbatim>\<open>async_close\<close> replaces the result.
\<close>

definition unlock_door_async ::
  "'tok lib \<Rightarrow> string \<Rightarrow> provider \<Rightarrow> store \<Rightarrow> (exn + bool \<times> message) \<times> event list" where
  "unlock_door_async l intercom_name p s =
     (case get_ring_client l p s of
        (Inl e, tr) \<Rightarrow> (Inl e, tr)
      | (Inr None, tr) \<Rightarrow> (Inr (False, NotAuthenticated), tr)
      | (Inr (Some c), tr) \<Rightarrow>
          (case try_unlock intercom_name p of
             (r, tr') \<Rightarrow>
               (case close p of
                  None \<Rightarrow> (Inr r, tr @ tr' @ [Close])
                | Some e \<Rightarrow> (Inl e, tr @ tr' @ [Close]))))"

text \<open>How often the session was released in a run.\<close>

definition releases :: "event list \<Rightarrow> nat" where
  "releases tr = length (filter (\<lambda>ev. ev = Close) tr)"

section \<open>Second factor\<close>

text \<open>
  The inner \<^verbatim>\<open>verify_2fa\<close> of \<^verbatim>\<open>setup_verify_2fa\<close>: \<open>(True, None)\<close>, or
  \<open>(False, Some e)\<close> for \<^verbatim>\<open>(False, str(e))\<close>.
\<close>

definition verify_2fa ::
  "provider \<Rightarrow> string \<Rightarrow> string \<Rightarrow> string \<Rightarrow> (bool \<times> exn option) \<times> event list" where
  "verify_2fa p username password code =
     (case fetch_token p username password code of
        Some e \<Rightarrow> ((False, Some e), [FetchToken username password code])
      | None \<Rightarrow>
          (case create_session p of
             Some e \<Rightarrow> ((False, Some e), [FetchToken username password code, CreateSession])
           | None \<Rightarrow>
               (case update_data p of
                  Some e \<Rightarrow>
                    ((False, Some e), [FetchToken username password code, CreateSession, UpdateData])
                | None \<Rightarrow>
                    (case close p of
                       Some e \<Rightarrow>
                         ((False, Some e),
                          [FetchToken username password code, CreateSession, UpdateData, Close])
                     | None \<Rightarrow>
                         ((True, None),
                          [FetchToken username password code, CreateSession, UpdateData, Close])))))"


section \<open>A small library instance and sample data\<close>

text \<open>
  To run the functions above on concrete inputs, the library parameters are instantiated
  with base64 over the standard alphabet (decoding refuses a text whose length is not a
  multiple of four or that has a character outside the alphabet) and with JSON restricted
  to string tokens without quotes or escapes, written between double quotes, and
  \<^verbatim>\<open>null\<close>.
\<close>

definition b64_alphabet :: string where
  "b64_alphabet = ''ABCDEFGHIJKLMNOPQRSTUVWXYZabcdefghijklmnopqrstuvwxyz0123456789+/''"

definition b64_char :: "nat \<Rightarrow> char" where
  "b64_char n = b64_alphabet ! n"

fun b64_groups :: "nat list \<Rightarrow> string" where
  "b64_groups (a # b # c # r) =
     [b64_char (a div 4), b64_char ((a mod 4) * 16 + b div 16),
      b64_char ((b mod 16) * 4 + c div 64), b64_char (c mod 64)] @ b64_groups r"
| "b64_groups [a, b] =
     [b64_char (a div 4), b64_char ((a mod 4) * 16 + b div 16),
      b64_char ((b mod 16) * 4), CHR ''='']"
| "b64_groups [a] = [b64_char (a div 4), b64_char ((a mod 4) * 16), CHR ''='', CHR ''='']"
| "b64_groups [] = []"

definition demo_b64encode :: "string \<Rightarrow> string" where
  "demo_b64encode text = b64_groups (map of_char text)"

fun b64_index :: "char \<Rightarrow> string \<Rightarrow> nat option" where
  "b64_index c [] = None"
| "b64_index c (a # as) =
     (if c = a then Some 0 else map_option Suc (b64_index c as))"

fun b64_sextets :: "string \<Rightarrow> nat list option" where
  "b64_sextets [] = Some []"
| "b64_sextets (c # cs) =
     (case b64_index c b64_alphabet of
        None \<Rightarrow> None
      | Some n \<Rightarrow> map_option ((#) n) (b64_sextets cs))"

fun b64_bytes :: "nat list \<Rightarrow> nat list" where
  "b64_bytes (a # b # c # d # r) =
     [a * 4 + b div 16, (b mod 16) * 16 + c div 4, (c mod 4) * 64 + d] @ b64_bytes r"
| "b64_bytes [a, b, c] = [a * 4 + b div 16, (b mod 16) * 16 + c div 4]"
| "b64_bytes [a, b] = [a * 4 + b div 16]"
| "b64_bytes [a] = []"
| "b64_bytes [] = []"

definition demo_b64decode :: "string \<Rightarrow> exn + string" where
  "demo_b64decode text =
     (if length text mod 4 \<noteq> 0 then Inl (OtherError ''Incorrect padding'')
      else case b64_sextets (takeWhile (\<lambda>c. c \<noteq> CHR ''='') text) of
             None \<Rightarrow> Inl (OtherError ''Invalid character'')
           | Some ns \<Rightarrow> Inr (map char_of (b64_bytes ns)))"

definition demo_json_dumps :: "string \<Rightarrow> string" where
  "demo_json_dumps t = CHR 0x22 # t @ [CHR 0x22]"

definition demo_json_loads :: "string \<Rightarrow> exn + string option" where
  "demo_json_loads text =
     (if text = ''null'' then Inr None
      else if 2 \<le> length text \<and> hd text = CHR 0x22 \<and> last text = CHR 0x22
              \<and> CHR 0x22 \<notin> set (butlast (tl text))
      then Inr (Some (butlast (tl text)))
      else Inl (OtherError ''JSONDecodeError''))"

definition demo_lib :: "string lib" where
  "demo_lib = \<lparr>json_dumps = demo_json_dumps, json_loads = demo_json_loads,
                b64encode = demo_b64encode, b64decode = demo_b64decode,
                truthy = (\<lambda>t. t \<noteq> [])\<rparr>"


text \<open>A \<^verbatim>\<open>ring.devices()\<close> object that has a combined listing and nothing else.\<close>

definition combined_listing :: "device list \<Rightarrow> ring_devices" where
  "combined_listing ds =
     \<lparr>other = None, doorbots = None, stickup_cams = None, chimes = None,
      video_doorbells = None, devices_combined = Some ds\<rparr>"

definition front_door :: device where
  "front_door =
     \<lparr>dev_type = ''<class 'ring_doorbell.other.RingOther'>'',
      name = Some ''Front Door'', family = Some ''other''\<rparr>"

definition chime :: device where
  "chime =
     \<lparr>dev_type = ''<class 'ring_doorbell.chime.RingChime'>'',
      name = Some ''Chime'', family = Some ''chime''\<rparr>"

definition side_gate :: device where
  "side_gate =
     \<lparr>dev_type = ''<class 'ring_doorbell.other.RingOther'>'',
      name = Some ''Side Gate'', family = Some ''Other''\<rparr>"

definition doorbell :: device where
  "doorbell =
     \<lparr>dev_type = ''<class 'ring_doorbell.doorbot.RingDoorBell'>'',
      name = Some ''Porch'', family = Some ''doorbots''\<rparr>"

text \<open>A \<^verbatim>\<open>ring.devices()\<close> object with the four groupings and no combined listing.\<close>

definition grouped_only :: ring_devices where
  "grouped_only =
     \<lparr>other = Some [], doorbots = Some [doorbell], stickup_cams = Some [], chimes = Some [],
      video_doorbells = None, devices_combined = None\<rparr>"

text \<open>A vendor cloud on which every call returns.\<close>

definition cloud :: "ring_devices \<Rightarrow> provider" where
  "cloud ds =
     \<lparr>fetch_token = (\<lambda>username password code. None), create_session = None,
      update_data = None, devices = ds, open_door = (\<lambda>d. None), close = None\<rparr>"

text \<open>
  A store with the token \<^verbatim>\<open>"env-token"\<close> in \<^verbatim>\<open>RING_TOKEN\<close> and the token
  \<^verbatim>\<open>"file-token"\<close> in the file, and one with the file only.
\<close>

definition both_store :: store where
  "both_store =
     \<lparr>ring_token = ''ImVudi10b2tlbiI='', token_file = Contents (demo_json_dumps ''file-token''),
      latest_token_b64 = None\<rparr>"

definition file_store :: store where
  "file_store =
     \<lparr>ring_token = [], token_file = Contents (demo_json_dumps ''file-token''),
      latest_token_b64 = None\<rparr>"

text \<open>
  A store with no token at all, and one whose \<^verbatim>\<open>RING_TOKEN\<close> is not valid base64
  (a character is missing at its end).
\<close>

definition empty_store :: store where
  "empty_store = \<lparr>ring_token = [], token_file = NoFile, latest_token_b64 = None\<rparr>"

definition broken_env_store :: store where
  "broken_env_store =
     \<lparr>ring_token = ''ImVudi10b2tlbiI'', token_file = Contents (demo_json_dumps ''file-token''),
      latest_token_b64 = None\<rparr>"

text \<open>
  Vendor clouds on which calls raise: the door cannot be opened; the door cannot be
  opened and closing the session raises too; the session cannot be opened for a reason
  other than authentication; the token is refused; every code but 123456 is refused.
\<close>

definition offline_cloud :: provider where
  "offline_cloud =
     (cloud (combined_listing [front_door, chime]))
       \<lparr>open_door := (\<lambda>d. Some (OtherError ''Device offline''))\<rparr>"

definition failing_close_cloud :: provider where
  "failing_close_cloud =
     offline_cloud\<lparr>close := Some (OtherError ''Session is closed'')\<rparr>"

definition unreachable_cloud :: provider where
  "unreachable_cloud =
     (cloud (combined_listing [front_door, chime]))
       \<lparr>create_session := Some (OtherError ''Connection timed out'')\<rparr>"

definition expired_cloud :: provider where
  "expired_cloud =
     (cloud (combined_listing [front_door, chime]))
       \<lparr>create_session := Some (AuthenticationError ''Token expired'')\<rparr>"

definition coded_cloud :: provider where
  "coded_cloud =
     (cloud (combined_listing [front_door, chime]))
       \<lparr>fetch_token := (\<lambda>username password code.
          if code = ''123456'' then None else Some (OtherError ''Verification code is invalid''))\<rparr>"

section \<open>The resolution order as the specification words it\<close>

text \<open>
  The specification's resolution for candidates without a configured name: the first
  candidate with "intercom" in its type, family or name, else the first candidate whose
  family equals "other", else none.
\<close>

definition claimed_resolution :: "device list \<Rightarrow> device option" where
  "claimed_resolution candidates =
     (case List.find explicit_intercom candidates of
        Some d \<Rightarrow> Some d
      | None \<Rightarrow> List.find (\<lambda>d. family d = Some ''other'') candidates)"


section \<open>Properties of device resolution\<close>

lemma classify_filter:
  "classify ds ic ot =
     (ic @ filter explicit_intercom ds,
      ot @ filter (\<lambda>d. \<not> explicit_intercom d \<and> device_family d = ''other'') ds)"
  by (induction ds arbitrary: ic ot) simp_all

lemma find_by_name_find: "find_by_name n ds = List.find (name_matches n) ds"
  by (induction ds) simp_all

lemma first_of_filter:
  "(case filter P xs of [] \<Rightarrow> None | x # _ \<Rightarrow> Some x) = List.find P xs"
  by (induction xs) simp_all

lemma find_none_filter: "List.find P xs = None \<Longrightarrow> filter P xs = []"
  by (induction xs) (simp_all split: if_splits)

lemma find_some_filter: "List.find P xs = Some x \<Longrightarrow> \<exists>ys. filter P xs = x # ys"
  by (induction xs) (auto split: if_splits)

lemma find_second_bucket:
  "List.find P xs = None \<Longrightarrow> List.find (\<lambda>d. \<not> P d \<and> Q d) xs = List.find Q xs"
  by (induction xs) (simp_all split: if_splits)

text \<open>
  What the two lists of the classification loop give: the first explicit intercom, and
  when there is none the first device whose lowercased family is "other".
\<close>

lemma classify_first:
  "(case classify ds [] [] of (d # _, _) \<Rightarrow> Some d | ([], d # _) \<Rightarrow> Some d | ([], []) \<Rightarrow> None) =
     (case List.find explicit_intercom ds of
        Some d \<Rightarrow> Some d
      | None \<Rightarrow> List.find (\<lambda>d. device_family d = ''other'') ds)"
proof (cases "List.find explicit_intercom ds")
  case None
  then have "filter explicit_intercom ds = []"
    by (rule find_none_filter)
  moreover have "List.find (\<lambda>d. \<not> explicit_intercom d \<and> device_family d = ''other'') ds =
                 List.find (\<lambda>d. device_family d = ''other'') ds"
    using None by (rule find_second_bucket)
  ultimately show ?thesis
    using None
      first_of_filter [of "\<lambda>d. \<not> explicit_intercom d \<and> device_family d = ''other''" ds]
    by (simp add: classify_filter split: list.splits)
next
  case (Some d)
  then obtain ys where "filter explicit_intercom ds = d # ys"
    using find_some_filter [OF Some] by blast
  then show ?thesis
    using Some by (simp add: classify_filter)
qed

lemma find_intercom_unnamed:
  "find_intercom [] devs =
     (case List.find explicit_intercom (all_devices devs) of
        Some d \<Rightarrow> Some d
      | None \<Rightarrow> List.find (\<lambda>d. device_family d = ''other'') (all_devices devs))"
  by (simp add: find_intercom_def classify_first Let_def)

lemma find_intercom_no_match:
  "List.find (name_matches n) (all_devices devs) = None \<Longrightarrow>
   find_intercom n devs = find_intercom [] devs"
  by (simp add: find_intercom_def find_by_name_find Let_def)

lemma find_intercom_match:
  "n \<noteq> [] \<Longrightarrow> List.find (name_matches n) (all_devices devs) = Some d \<Longrightarrow>
   find_intercom n devs = Some d"
  by (simp add: find_intercom_def find_by_name_find Let_def)

text \<open>
  C2, as the code has it. With no configured name (\<^verbatim>\<open>INTERCOM_NAME\<close> empty),
  \<^verbatim>\<open>find_intercom\<close> returns the first candidate whose lowercased type, family or name
  contains "intercom" if there is one; otherwise the first candidate whose lowercased
  family equals "other"; otherwise none. For the candidates Front Door (family "other")
  and Chime (family "chime") it returns Front Door.
\<close>

theorem find_intercom_heuristic:
  "find_intercom [] devs =
     (case List.find explicit_intercom (all_devices devs) of
        Some d \<Rightarrow> Some d
      | None \<Rightarrow> List.find (\<lambda>d. device_family d = ''other'') (all_devices devs)) \<and>
   find_intercom [] (combined_listing [front_door, chime]) = Some front_door \<and>
   name front_door = Some ''Front Door''"
proof -
  have "find_intercom [] (combined_listing [front_door, chime]) = Some front_door"
    by code_simp
  moreover have "name front_door = Some ''Front Door''"
    by (simp add: front_door_def)
  ultimately show ?thesis
    by (simp add: find_intercom_unnamed)
qed

text \<open>
  C2, as the specification words it, does not hold: the family is compared after
  lowercasing, so a candidate of family "Other" standing before one of family "other" is
  the one returned, while the first candidate whose family equals "other" is the second.
\<close>

theorem find_intercom_family_case_counterexample:
  "find_intercom [] (combined_listing [side_gate, front_door]) = Some side_gate \<and>
   claimed_resolution (all_devices (combined_listing [side_gate, front_door])) = Some front_door \<and>
   side_gate \<noteq> front_door"
  by code_simp

text \<open>
  C3. When a name is configured and some candidate has that name up to case,
  \<^verbatim>\<open>find_intercom\<close> returns the first candidate with that name, whatever the types and
  families of the candidates are: the result is a candidate at a position \<open>i\<close> whose name
  matches, and no candidate before \<open>i\<close> has a matching name.
\<close>

theorem find_intercom_by_name:
  assumes "intercom_name \<noteq> []"
    and "d \<in> set (all_devices devs)"
    and "name_matches intercom_name d"
  shows "find_intercom intercom_name devs =
           List.find (name_matches intercom_name) (all_devices devs) \<and>
         (\<exists>r i. find_intercom intercom_name devs = Some r \<and> name_matches intercom_name r \<and>
                i < length (all_devices devs) \<and> all_devices devs ! i = r \<and>
                (\<forall>j<i. \<not> name_matches intercom_name (all_devices devs ! j)))"
proof -
  have "List.find (name_matches intercom_name) (all_devices devs) \<noteq> None"
    using assms(2,3) by (auto simp: find_None_iff)
  then obtain r where r: "List.find (name_matches intercom_name) (all_devices devs) = Some r"
    by blast
  then have res: "find_intercom intercom_name devs = Some r"
    using assms(1) by (simp add: find_intercom_match)
  from r obtain i where "i < length (all_devices devs)" "name_matches intercom_name r"
      "all_devices devs ! i = r" "\<forall>j<i. \<not> name_matches intercom_name (all_devices devs ! j)"
    by (auto simp: find_Some_iff)
  with res r show ?thesis
    by auto
qed

theorem find_intercom_by_name_witness:
  "find_intercom ''CHIME'' (combined_listing [front_door, chime]) = Some chime \<and>
   find_intercom [] (combined_listing [front_door, chime]) = Some front_door"
proof -
  have a: "''CHIME'' \<noteq> []"
    by simp
  have b: "chime \<in> set (all_devices (combined_listing [front_door, chime]))"
    by (simp add: all_devices_def combined_listing_def)
  have c: "name_matches ''CHIME'' chime"
    by code_simp
  have "List.find (name_matches ''CHIME'') (all_devices (combined_listing [front_door, chime])) =
          Some chime"
    by code_simp
  with find_intercom_by_name [OF a b c]
  have "find_intercom ''CHIME'' (combined_listing [front_door, chime]) = Some chime"
    by simp
  moreover have "find_intercom [] (combined_listing [front_door, chime]) = Some front_door"
    by code_simp
  ultimately show ?thesis
    by simp
qed

text \<open>
  C10. When a name is configured and no candidate has that name up to case,
  \<^verbatim>\<open>find_intercom\<close> does not stop with none: it returns what it returns with no
  configured name, the first explicit intercom or else the first device of the "other"
  family among all candidates.
\<close>

theorem find_intercom_name_fallback:
  assumes "intercom_name \<noteq> []"
    and "\<forall>d \<in> set (all_devices devs). \<not> name_matches intercom_name d"
  shows "find_intercom intercom_name devs = find_intercom [] devs \<and>
         find_intercom intercom_name devs =
           (case List.find explicit_intercom (all_devices devs) of
              Some d \<Rightarrow> Some d
            | None \<Rightarrow> List.find (\<lambda>d. device_family d = ''other'') (all_devices devs))"
proof -
  have "List.find (name_matches intercom_name) (all_devices devs) = None"
    using assms(2) by (simp add: find_None_iff)
  then have "find_intercom intercom_name devs = find_intercom [] devs"
    by (rule find_intercom_no_match)
  then show ?thesis
    by (simp add: find_intercom_unnamed)
qed

theorem find_intercom_name_fallback_witness:
  "find_intercom ''Garage'' (combined_listing [chime, front_door]) = Some front_door"
proof -
  have a: "''Garage'' \<noteq> []"
    by simp
  have b: "\<forall>d \<in> set (all_devices (combined_listing [chime, front_door])).
             \<not> name_matches ''Garage'' d"
    by code_simp
  have "find_intercom [] (combined_listing [chime, front_door]) = Some front_door"
    by code_simp
  with find_intercom_name_fallback [OF a b] show ?thesis
    by simp
qed


section \<open>Properties of unlocking\<close>

lemma releases_get_ring_client: "releases (snd (get_ring_client l p s)) = 0"
  by (simp add: get_ring_client_def releases_def split: option.splits)

lemma releases_try_unlock: "releases (snd (try_unlock n p)) = 0"
  by (simp add: try_unlock_def releases_def split: option.splits)

lemma releases_append: "releases (xs @ ys) = releases xs + releases ys"
  by (simp add: releases_def)

lemma unlock_absent:
  "fst (get_ring_client l p s) = Inr None \<Longrightarrow>
   unlock_door_async l n p s = (Inr (False, NotAuthenticated), snd (get_ring_client l p s))"
  by (cases "get_ring_client l p s") (simp add: unlock_door_async_def)

lemma unlock_acquired:
  "fst (get_ring_client l p s) = Inr (Some c) \<Longrightarrow>
   unlock_door_async l n p s =
     ((case close p of None \<Rightarrow> Inr (fst (try_unlock n p)) | Some e \<Rightarrow> Inl e),
      snd (get_ring_client l p s) @ snd (try_unlock n p) @ [Close])"
  by (cases "get_ring_client l p s"; cases "try_unlock n p")
     (simp add: unlock_door_async_def split: option.splits)

lemma unlock_raised:
  "fst (get_ring_client l p s) = Inl e \<Longrightarrow>
   unlock_door_async l n p s = (Inl e, snd (get_ring_client l p s))"
  by (cases "get_ring_client l p s") (simp add: unlock_door_async_def)

lemma try_unlock_actuate_error:
  "find_intercom n (devices p) = Some d \<Longrightarrow> open_door p d = Some e \<Longrightarrow>
   fst (try_unlock n p) = (False, ErrorUnlockingDoor e)"
  by (simp add: try_unlock_def)

text \<open>With a combined listing that is not empty, the diagnostic lists every candidate.\<close>

lemma device_list_combined:
  "devices_combined ds = Some xs \<Longrightarrow> xs \<noteq> [] \<Longrightarrow>
   device_list ds = map describe (all_devices ds)"
  by (simp add: device_list_def all_devices_def)

text \<open>
  What holds of every run of \<^verbatim>\<open>unlock_door_async\<close>: when
  \<^verbatim>\<open>get_ring_client\<close> returns \<^verbatim>\<open>(None, None)\<close> the session is never closed;
  when it returns a session, \<^verbatim>\<open>async_close\<close> is called exactly once, whatever the
  rest of the run does; and when \<^verbatim>\<open>async_open_door\<close> raises \<open>e\<close>, the result
  \<open>(False, ErrorUnlockingDoor e)\<close> is returned if \<^verbatim>\<open>async_close\<close> returns, and no
  other result is ever returned.
\<close>

theorem unlock_release_once:
  "(fst (get_ring_client l p s) = Inr None \<longrightarrow>
      releases (snd (unlock_door_async l n p s)) = 0) \<and>
   (fst (get_ring_client l p s) = Inr (Some c) \<longrightarrow>
      releases (snd (unlock_door_async l n p s)) = 1) \<and>
   (fst (get_ring_client l p s) = Inr (Some c) \<and> find_intercom n (devices p) = Some d
      \<and> open_door p d = Some e \<longrightarrow>
      releases (snd (unlock_door_async l n p s)) = 1 \<and>
      (close p = None \<longrightarrow>
         fst (unlock_door_async l n p s) = Inr (False, ErrorUnlockingDoor e)) \<and>
      (\<forall>r. fst (unlock_door_async l n p s) = Inr r \<longrightarrow> r = (False, ErrorUnlockingDoor e)))"
proof -
  have absent: "releases (snd (unlock_door_async l n p s)) = 0"
    if "fst (get_ring_client l p s) = Inr None"
    using that by (simp add: unlock_absent releases_get_ring_client)
  have once: "releases (snd (unlock_door_async l n p s)) = 1"
    if "fst (get_ring_client l p s) = Inr (Some c)"
  proof -
    have "releases [Close] = 1"
      by (simp add: releases_def)
    then show ?thesis
      using that
      by (simp add: unlock_acquired releases_append releases_get_ring_client
          releases_try_unlock)
  qed
  have failed: "fst (unlock_door_async l n p s) =
                  (case close p of
                     None \<Rightarrow> Inr (False, ErrorUnlockingDoor e)
                   | Some e' \<Rightarrow> Inl e')"
    if "fst (get_ring_client l p s) = Inr (Some c)" "find_intercom n (devices p) = Some d"
       "open_door p d = Some e"
    using that by (simp add: unlock_acquired try_unlock_actuate_error split: option.splits)
  show ?thesis
    using absent once failed by (auto split: option.splits)
qed

theorem unlock_release_once_witness:
  "releases (snd (unlock_door_async demo_lib [] offline_cloud empty_store)) = 0 \<and>
   releases (snd (unlock_door_async demo_lib [] offline_cloud both_store)) = 1 \<and>
   fst (unlock_door_async demo_lib [] offline_cloud both_store) =
     Inr (False, ErrorUnlockingDoor (OtherError ''Device offline''))"
proof -
  have a: "fst (get_ring_client demo_lib offline_cloud empty_store) = Inr None"
    by code_simp
  have b: "fst (get_ring_client demo_lib offline_cloud both_store) = Inr (Some Client)"
    by code_simp
  have c: "find_intercom [] (devices offline_cloud) = Some front_door"
    by code_simp
  have d: "open_door offline_cloud front_door = Some (OtherError ''Device offline'')"
    by (simp add: offline_cloud_def)
  have e: "close offline_cloud = None"
    by (simp add: offline_cloud_def cloud_def)
  show ?thesis
    using a unlock_release_once [of demo_lib offline_cloud empty_store "[]"]
      b c d e
      unlock_release_once [of demo_lib offline_cloud both_store "[]" Client front_door
        "OtherError ''Device offline''"]
    by simp
qed

text \<open>
  C1, at an input where it fails. The session is acquired, the door cannot be opened and
  \<^verbatim>\<open>async_close\<close> raises as well. The \<^verbatim>\<open>except\<close> clause has the result
  \<open>(False, ErrorUnlockingDoor e)\<close> ready, the \<^verbatim>\<open>finally\<close> clause calls
  \<^verbatim>\<open>async_close\<close> once, outside any handler, and its exception replaces the result:
  the session was released exactly once, and no result is returned.
\<close>

theorem unlock_close_error_escapes:
  "fst (get_ring_client demo_lib failing_close_cloud both_store) = Inr (Some Client) \<and>
   try_unlock [] failing_close_cloud =
     ((False, ErrorUnlockingDoor (OtherError ''Device offline'')), [OpenDoor front_door]) \<and>
   unlock_door_async demo_lib [] failing_close_cloud both_store =
     (Inl (OtherError ''Session is closed''),
      [CreateSession, UpdateData, OpenDoor front_door, Close]) \<and>
   releases (snd (unlock_door_async demo_lib [] failing_close_cloud both_store)) = 1"
  by code_simp

text \<open>
  C6, at an input where it fails. The token is valid and opening the session raises an
  error that is not an authentication error: \<^verbatim>\<open>get_ring_client\<close> lets it through and
  the call stands before the \<^verbatim>\<open>try\<close> of \<^verbatim>\<open>unlock_door_async\<close>, so the exception
  leaves the function and no result is returned. An authentication error gives the
  result "not authenticated".
\<close>

theorem unlock_acquisition_error_escapes:
  "unlock_door_async demo_lib [] unreachable_cloud both_store =
     (Inl (OtherError ''Connection timed out''), [CreateSession]) \<and>
   unlock_door_async demo_lib [] expired_cloud both_store =
     (Inr (False, NotAuthenticated), [CreateSession])"
  by code_simp

text \<open>
  C8, at an input where it fails. The devices object has no combined listing; the
  resolver considers the doorbell of the grouping \<^verbatim>\<open>doorbots\<close> and finds no intercom,
  and the diagnostic, which reads the grouping \<^verbatim>\<open>other\<close> only, lists nothing.
\<close>

theorem device_list_omits_candidates:
  "all_devices grouped_only = [doorbell] \<and>
   find_intercom [] grouped_only = None \<and>
   unlock_door_async demo_lib [] (cloud grouped_only) both_store =
     (Inr (False, NoIntercomFound []), [CreateSession, UpdateData, Close])"
  by code_simp


section \<open>Properties of the token store\<close>

lemma get_cached_token_env:
  "ring_token s \<noteq> [] \<Longrightarrow> b64decode l (ring_token s) = Inr token_json \<Longrightarrow>
   json_loads l token_json = Inr v \<Longrightarrow> get_cached_token l s = v"
  by (simp add: get_cached_token_def from_env_def)

lemma get_cached_token_fall_through:
  "ring_token s = [] \<or> (\<exists>e. b64decode l (ring_token s) = Inl e) \<or>
   (\<exists>j e. b64decode l (ring_token s) = Inr j \<and> json_loads l j = Inl e) \<Longrightarrow>
   get_cached_token l s = from_file l s"
  by (auto simp: get_cached_token_def from_env_def)

lemma get_cached_token_cases:
  "get_cached_token l s = from_file l s \<or>
   (\<exists>j. ring_token s \<noteq> [] \<and> b64decode l (ring_token s) = Inr j \<and>
        json_loads l j = Inr (get_cached_token l s))"
  by (auto simp: get_cached_token_def from_env_def split: sum.splits)

lemma token_updated_env: "ring_token (token_updated l wr token s) = ring_token s"
  by (simp add: token_updated_def write_text_def Let_def split: write_outcome.splits)

lemma token_updated_file:
  "token_file (token_updated l wr token s) =
     (case wr of
        Written \<Rightarrow> Contents (json_dumps l token)
      | OpenFails e \<Rightarrow> token_file s
      | WriteFails e n \<Rightarrow> Contents (take n (json_dumps l token)))"
  by (simp add: token_updated_def write_text_def Let_def split: write_outcome.splits)

lemma token_updated_latest:
  "latest_token_b64 (token_updated l wr token s) = Some (b64encode l (json_dumps l token))"
  by (simp add: token_updated_def write_text_def Let_def split: write_outcome.splits)

lemma from_env_token_updated: "from_env l (token_updated l wr token s) = from_env l s"
  by (simp add: from_env_def token_updated_env)

text \<open>
  C4. \<^verbatim>\<open>get_cached_token\<close> resolves in this order. When \<^verbatim>\<open>RING_TOKEN\<close> is set
  and decodes, the decoded value is returned. When it is not set, or base64 or JSON
  decoding of it fails, the file decides: its contents are returned when it is there and
  parses, and \<^verbatim>\<open>None\<close> is returned when it does not parse, cannot be read or is not
  there. So when both sources hold a token and the two differ, the one of
  \<^verbatim>\<open>RING_TOKEN\<close> is returned.
\<close>

theorem get_cached_token_order:
  "(ring_token s \<noteq> [] \<and> b64decode l (ring_token s) = Inr token_json \<and>
      json_loads l token_json = Inr v \<longrightarrow> get_cached_token l s = v) \<and>
   (ring_token s = [] \<or> (\<exists>e. b64decode l (ring_token s) = Inl e) \<or>
      (\<exists>j e. b64decode l (ring_token s) = Inr j \<and> json_loads l j = Inl e) \<longrightarrow>
      (token_file s = Contents text \<and> json_loads l text = Inr w \<longrightarrow>
         get_cached_token l s = w) \<and>
      (token_file s = Contents text \<and> json_loads l text = Inl e' \<longrightarrow>
         get_cached_token l s = None) \<and>
      (token_file s = Unreadable \<or> token_file s = NoFile \<longrightarrow> get_cached_token l s = None)) \<and>
   (ring_token s \<noteq> [] \<and> b64decode l (ring_token s) = Inr token_json \<and>
      json_loads l token_json = Inr (Some t) \<and> token_file s = Contents text \<and>
      json_loads l text = Inr (Some t') \<and> t \<noteq> t' \<longrightarrow> get_cached_token l s = Some t)"
proof -
  have env: "get_cached_token l s = v"
    if "ring_token s \<noteq> []" "b64decode l (ring_token s) = Inr token_json"
       "json_loads l token_json = Inr v" for v
    using that by (rule get_cached_token_env)
  have durable: "get_cached_token l s = from_file l s"
    if "ring_token s = [] \<or> (\<exists>e. b64decode l (ring_token s) = Inl e) \<or>
        (\<exists>j e. b64decode l (ring_token s) = Inr j \<and> json_loads l j = Inl e)"
    using that by (rule get_cached_token_fall_through)
  have parsed: "from_file l s = w" if "token_file s = Contents text" "json_loads l text = Inr w"
    using that by (simp add: from_file_def)
  have unparsed: "from_file l s = None"
    if "token_file s = Contents text" "json_loads l text = Inl e'"
    using that by (simp add: from_file_def)
  have missing: "from_file l s = None" if "token_file s = Unreadable \<or> token_file s = NoFile"
    using that by (auto simp: from_file_def)
  show ?thesis
    using env durable parsed unparsed missing by metis
qed

theorem get_cached_token_order_witness:
  "get_cached_token demo_lib both_store = Some ''env-token'' \<and>
   get_cached_token demo_lib broken_env_store = Some ''file-token''"
proof -
  have a: "ring_token both_store \<noteq> []"
    by (simp add: both_store_def)
  have b: "b64decode demo_lib (ring_token both_store) = Inr (demo_json_dumps ''env-token'')"
    by code_simp
  have c: "json_loads demo_lib (demo_json_dumps ''env-token'') = Inr (Some ''env-token'')"
    by code_simp
  have d: "token_file both_store = Contents (demo_json_dumps ''file-token'')"
    by (simp add: both_store_def)
  have e: "json_loads demo_lib (demo_json_dumps ''file-token'') = Inr (Some ''file-token'')"
    by code_simp
  have f: "''env-token'' \<noteq> ''file-token''"
    by simp
  have "b64decode demo_lib (ring_token broken_env_store) = Inl (OtherError ''Incorrect padding'')"
    by code_simp
  then have g: "\<exists>e. b64decode demo_lib (ring_token broken_env_store) = Inl e"
    by blast
  have h: "token_file broken_env_store = Contents (demo_json_dumps ''file-token'')"
    by (simp add: broken_env_store_def)
  have "get_cached_token demo_lib both_store = Some ''env-token''"
    using a b c d e f
      get_cached_token_order [of both_store demo_lib "demo_json_dumps ''env-token''"
        "Some ''env-token''" "demo_json_dumps ''file-token''" "Some ''file-token''"
        "OtherError []" "''env-token''" "''file-token''"]
    by simp
  moreover have "get_cached_token demo_lib broken_env_store = Some ''file-token''"
    using g h e
      get_cached_token_order [of broken_env_store demo_lib "demo_json_dumps ''env-token''"
        "Some ''env-token''" "demo_json_dumps ''file-token''" "Some ''file-token''"
        "OtherError []" "''env-token''" "''file-token''"]
    by simp
  ultimately show ?thesis
    by simp
qed

text \<open>
  C5. \<^verbatim>\<open>token_updated\<close> always returns: an exception of the file write is caught and
  nothing is done with it. Whether the write succeeds or raises, \<^verbatim>\<open>_latest_token_b64\<close>
  is afterwards the base64 encoding of the JSON text of the token. The file holds that
  JSON text after a successful write, is as before when opening it raised, and holds the
  part written when writing raised.
\<close>

theorem token_updated_best_effort:
  "latest_token_b64 (token_updated l wr token s) = Some (b64encode l (json_dumps l token)) \<and>
   ring_token (token_updated l wr token s) = ring_token s \<and>
   (wr = Written \<longrightarrow>
      fst (write_text wr (json_dumps l token) s) = None \<and>
      token_file (token_updated l wr token s) = Contents (json_dumps l token)) \<and>
   (\<forall>e. wr = OpenFails e \<longrightarrow>
      fst (write_text wr (json_dumps l token) s) = Some e \<and>
      token_file (token_updated l wr token s) = token_file s) \<and>
   (\<forall>e n. wr = WriteFails e n \<longrightarrow>
      fst (write_text wr (json_dumps l token) s) = Some e \<and>
      token_file (token_updated l wr token s) = Contents (take n (json_dumps l token)))"
  by (simp add: token_updated_latest token_updated_env token_updated_file write_text_def)

theorem token_updated_best_effort_witness:
  "latest_token_b64
     (token_updated demo_lib (OpenFails (OtherError ''Read-only file system'')) ''env-token''
        empty_store) = Some ''ImVudi10b2tlbiI='' \<and>
   token_file
     (token_updated demo_lib (OpenFails (OtherError ''Read-only file system'')) ''env-token''
        empty_store) = NoFile \<and>
   latest_token_b64
     (token_updated demo_lib (WriteFails (OtherError ''No space left on device'') 0)
        ''env-token'' empty_store) = Some ''ImVudi10b2tlbiI='' \<and>
   token_file
     (token_updated demo_lib (WriteFails (OtherError ''No space left on device'') 0)
        ''env-token'' empty_store) = Contents []"
proof -
  have "b64encode demo_lib (json_dumps demo_lib ''env-token'') = ''ImVudi10b2tlbiI=''"
    by code_simp
  moreover have "token_file empty_store = NoFile"
    by (simp add: empty_store_def)
  ultimately show ?thesis
    using token_updated_best_effort [of demo_lib "OpenFails (OtherError ''Read-only file system'')"
        "''env-token''" empty_store]
      token_updated_best_effort [of demo_lib
        "WriteFails (OtherError ''No space left on device'') 0" "''env-token''" empty_store]
    by simp
qed

text \<open>
  C9, as the code has it. A valid stored token is one that \<^verbatim>\<open>get_cached_token\<close>
  returns and that JSON gives back unchanged (\<^verbatim>\<open>json.loads(json.dumps(t))\<close> is \<open>t\<close>).
  Loading it, passing it to \<^verbatim>\<open>token_updated\<close> and loading again returns the same
  token when the file write succeeds, when opening the file raises, and, whatever the
  write does, when the token came from \<^verbatim>\<open>RING_TOKEN\<close>.
\<close>

theorem load_persist_load:
  assumes "get_cached_token l s = Some t"
    and "json_loads l (json_dumps l t) = Inr (Some t)"
    and "wr = Written \<or> (\<exists>e. wr = OpenFails e) \<or> from_env l s \<noteq> None"
  shows "get_cached_token l (token_updated l wr t s) = Some t"
proof (cases "from_env l s")
  case (Some v)
  then have "get_cached_token l (token_updated l wr t s) = get_cached_token l s"
    by (simp add: get_cached_token_def from_env_token_updated)
  with assms(1) show ?thesis
    by simp
next
  case None
  then have before: "from_file l s = Some t"
    using assms(1) by (simp add: get_cached_token_def)
  from None have after: "get_cached_token l (token_updated l wr t s) =
      from_file l (token_updated l wr t s)"
    by (simp add: get_cached_token_def from_env_token_updated)
  from None assms(3) consider "wr = Written" | e where "wr = OpenFails e"
    by blast
  then show ?thesis
  proof cases
    case 1
    then have "from_file l (token_updated l wr t s) = Some t"
      using assms(2) by (simp add: from_file_def token_updated_file)
    with after show ?thesis
      by simp
  next
    case 2
    then have "from_file l (token_updated l wr t s) = from_file l s"
      by (simp add: from_file_def token_updated_file)
    with after before show ?thesis
      by simp
  qed
qed

theorem load_persist_load_witness:
  "get_cached_token demo_lib (token_updated demo_lib Written ''file-token'' file_store) =
     Some ''file-token'' \<and>
   get_cached_token demo_lib
     (token_updated demo_lib (OpenFails (OtherError ''Read-only file system'')) ''file-token''
        file_store) = Some ''file-token'' \<and>
   get_cached_token demo_lib
     (token_updated demo_lib (WriteFails (OtherError ''No space left on device'') 0)
        ''env-token'' both_store) = Some ''env-token''"
proof -
  have a: "get_cached_token demo_lib file_store = Some ''file-token''"
    by code_simp
  have b: "json_loads demo_lib (json_dumps demo_lib ''file-token'') = Inr (Some ''file-token'')"
    by code_simp
  have c: "get_cached_token demo_lib both_store = Some ''env-token''"
    by code_simp
  have d: "json_loads demo_lib (json_dumps demo_lib ''env-token'') = Inr (Some ''env-token'')"
    by code_simp
  have "from_env demo_lib both_store = Some (Some ''env-token'')"
    by code_simp
  then have e: "from_env demo_lib both_store \<noteq> None"
    by simp
  show ?thesis
    using load_persist_load [OF a b, of Written]
      load_persist_load [OF a b, of "OpenFails (OtherError ''Read-only file system'')"]
      load_persist_load [OF c d, of "WriteFails (OtherError ''No space left on device'') 0"] e
    by simp
qed

text \<open>
  C9, as the specification words it, does not hold. The token comes from the file, and
  the write of \<^verbatim>\<open>token_updated\<close> raises after the file was opened and before
  anything was written: the file is left empty, its text does not parse, and the next
  load returns \<^verbatim>\<open>None\<close>.
\<close>

theorem load_persist_load_counterexample:
  "get_cached_token demo_lib file_store = Some ''file-token'' \<and>
   json_loads demo_lib (json_dumps demo_lib ''file-token'') = Inr (Some ''file-token'') \<and>
   get_cached_token demo_lib
     (token_updated demo_lib (WriteFails (OtherError ''No space left on device'') 0)
        ''file-token'' file_store) = None"
  by code_simp

section \<open>Properties of the second factor\<close>

lemma verify_2fa_all_return:
  "fetch_token p u pw c = None \<Longrightarrow> create_session p = None \<Longrightarrow> update_data p = None \<Longrightarrow>
   close p = None \<Longrightarrow>
   verify_2fa p u pw c = ((True, None), [FetchToken u pw c, CreateSession, UpdateData, Close])"
  by (simp add: verify_2fa_def)

lemma verify_2fa_some_raises:
  "fetch_token p u pw c \<noteq> None \<or> create_session p \<noteq> None \<or> update_data p \<noteq> None \<or>
   close p \<noteq> None \<Longrightarrow>
   \<exists>e. fst (verify_2fa p u pw c) = (False, Some e)"
  by (auto simp: verify_2fa_def split: option.splits)

lemma verify_2fa_refused:
  "fetch_token p u pw c = Some e \<Longrightarrow>
   verify_2fa p u pw c = ((False, Some e), [FetchToken u pw c])"
  by (simp add: verify_2fa_def)

text \<open>
  C7. \<^verbatim>\<open>verify_2fa\<close> reports success exactly when the authentication call with the
  code, the opening of a session, the pull of its data and the closing of the session
  all return, and then these four calls were made in this order, once each. When any of
  them raises, the result is a failure with the exception raised. A code that the
  authentication call refuses gives a failure after that one call.
\<close>

theorem verify_2fa_complete_iff:
  "(fst (fst (verify_2fa p u pw c)) \<longleftrightarrow>
      fetch_token p u pw c = None \<and> create_session p = None \<and> update_data p = None \<and>
      close p = None) \<and>
   (fst (fst (verify_2fa p u pw c)) \<longrightarrow>
      verify_2fa p u pw c =
        ((True, None), [FetchToken u pw c, CreateSession, UpdateData, Close])) \<and>
   (\<not> fst (fst (verify_2fa p u pw c)) \<longrightarrow>
      (\<exists>e. fst (verify_2fa p u pw c) = (False, Some e))) \<and>
   (\<forall>e. fetch_token p u pw c = Some e \<longrightarrow>
      verify_2fa p u pw c = ((False, Some e), [FetchToken u pw c]))"
proof (cases "fetch_token p u pw c = None \<and> create_session p = None \<and>
    update_data p = None \<and> close p = None")
  case True
  then have "verify_2fa p u pw c =
      ((True, None), [FetchToken u pw c, CreateSession, UpdateData, Close])"
    by (simp add: verify_2fa_all_return)
  with True show ?thesis
    by simp
next
  case False
  then obtain e where "fst (verify_2fa p u pw c) = (False, Some e)"
    using verify_2fa_some_raises [of p u pw c] by blast
  with False show ?thesis
    by (simp add: verify_2fa_refused)
qed

theorem verify_2fa_complete_iff_witness:
  "verify_2fa coded_cloud ''user@example.org'' ''secret'' ''000000'' =
     ((False, Some (OtherError ''Verification code is invalid'')),
      [FetchToken ''user@example.org'' ''secret'' ''000000'']) \<and>
   verify_2fa coded_cloud ''user@example.org'' ''secret'' ''123456'' =
     ((True, None),
      [FetchToken ''user@example.org'' ''secret'' ''123456'', CreateSession, UpdateData, Close])"
proof -
  have a: "fetch_token coded_cloud ''user@example.org'' ''secret'' ''000000'' =
             Some (OtherError ''Verification code is invalid'')"
    by (simp add: coded_cloud_def)
  have b: "fst (fst (verify_2fa coded_cloud ''user@example.org'' ''secret'' ''123456''))"
    by code_simp
  show ?thesis
    using a verify_2fa_complete_iff [of coded_cloud "''user@example.org''" "''secret''"
        "''000000''"]
      b verify_2fa_complete_iff [of coded_cloud "''user@example.org''" "''secret''"
        "''123456''"]
    by simp
qed

end
